theory Spec2Isabelle
  imports Main "HOL-Library.Word"
begin

section \<open>Strings of the page\<close>

text \<open>
  A JavaScript string is a sequence of UTF-16 code units. The patterns of the form schema
  carry no \<open>u\<close> flag, so they match code unit by code unit. Constants of the source text
  (messages, URLs) are kept as HOL strings; \<open>utf16\<close> turns an ASCII literal into the run-time
  string it denotes.
\<close>

type_synonym jschar = "16 word"
type_synonym jsstring = "jschar list"

definition utf16 :: "string \<Rightarrow> jsstring" where
  "utf16 s = map of_char s"

text \<open>The class \<open>[a-zA-Z]\<close>.\<close>

definition isAlpha :: "jschar \<Rightarrow> bool" where
  "isAlpha c \<longleftrightarrow> (0x41 \<le> c \<and> c \<le> 0x5A) \<or> (0x61 \<le> c \<and> c \<le> 0x7A)"

text \<open>The class \<open>\d\<close>: in JavaScript the ten ASCII digits only.\<close>

definition isDigit :: "jschar \<Rightarrow> bool" where
  "isDigit c \<longleftrightarrow> 0x30 \<le> c \<and> c \<le> 0x39"

text \<open>
  The class \<open>\s\<close>, which is also what \<open>String.prototype.trim\<close> strips: the ECMAScript
  WhiteSpace and LineTerminator code points (tab, line feed, vertical tab, form feed,
  carriage return, space, no-break space, the Unicode space separators, line and paragraph
  separator, and the byte order mark).
\<close>

definition isWhiteSpace :: "jschar \<Rightarrow> bool" where
  "isWhiteSpace c \<longleftrightarrow>
     (0x09 \<le> c \<and> c \<le> 0x0D) \<or> c = 0x20 \<or> c = 0xA0 \<or> c = 0x1680 \<or>
     (0x2000 \<le> c \<and> c \<le> 0x200A) \<or> c = 0x2028 \<or> c = 0x2029 \<or> c = 0x202F \<or>
     c = 0x205F \<or> c = 0x3000 \<or> c = 0xFEFF"

text \<open>The class \<open>[a-zA-Z\s]\<close> of the three name patterns.\<close>

definition isAlphaOrSpace :: "jschar \<Rightarrow> bool" where
  "isAlphaOrSpace c \<longleftrightarrow> isAlpha c \<or> isWhiteSpace c"

text \<open>\<open>/^[a-zA-Z\s]+$/\<close>, the pattern of \<open>parentName\<close> and \<open>city\<close>.\<close>

definition nameRegex :: "jsstring \<Rightarrow> bool" where
  "nameRegex s \<longleftrightarrow> s \<noteq> [] \<and> list_all isAlphaOrSpace s"

text \<open>\<open>/^[a-zA-Z\s]*$/\<close>, the pattern of \<open>schoolName\<close>.\<close>

definition schoolRegex :: "jsstring \<Rightarrow> bool" where
  "schoolRegex s \<longleftrightarrow> list_all isAlphaOrSpace s"

text \<open>\<open>/^\d{10}$/\<close>, the pattern of \<open>mobileNumber\<close>.\<close>

definition mobileRegex :: "jsstring \<Rightarrow> bool" where
  "mobileRegex s \<longleftrightarrow> length s = 10 \<and> list_all isDigit s"

text \<open>\<open>s.trim()\<close>.\<close>

definition trim :: "jsstring \<Rightarrow> jsstring" where
  "trim s = rev (dropWhile isWhiteSpace (rev (dropWhile isWhiteSpace s)))"


section \<open>The lead form and its schema\<close>

text \<open>
  The values of the six form fields. A field of the object may be missing at run time
  (\<open>undefined\<close>), which is \<open>None\<close>; the type of the form gives every present field a string.
\<close>

record lead_fields =
  parentName :: "jsstring option"
  childGrade :: "jsstring option"
  schoolName :: "jsstring option"
  city :: "jsstring option"
  mobileNumber :: "jsstring option"
  email :: "jsstring option"

datatype field = ParentName | ChildGrade | SchoolName | City | MobileNumber | Email

text \<open>A validation issue: the field it is reported on and its message.\<close>

type_synonym issue = "field \<times> string"

text \<open>
  The schema combinators of the validation library, as the schema uses them. A check of a
  string schema yields its message when it fails; \<open>z.string()\<close> reports \<open>Required\<close> on a
  missing value and otherwise runs all its checks in order, collecting every message;
  \<open>.optional()\<close> accepts a missing value and hands every other value to the inner schema.
\<close>

type_synonym check = "jsstring \<Rightarrow> string list"

definition zmin :: "nat \<Rightarrow> string \<Rightarrow> check" where
  "zmin n msg s = (if length s < n then [msg] else [])"

definition zregex :: "(jsstring \<Rightarrow> bool) \<Rightarrow> string \<Rightarrow> check" where
  "zregex re msg s = (if re s then [] else [msg])"

definition zstring :: "check list \<Rightarrow> jsstring option \<Rightarrow> string list" where
  "zstring checks v =
     (case v of None \<Rightarrow> [''Required''] | Some s \<Rightarrow> concat (map (\<lambda>c. c s) checks))"

definition zoptional ::
  "(jsstring option \<Rightarrow> string list) \<Rightarrow> jsstring option \<Rightarrow> string list" where
  "zoptional inner v = (case v of None \<Rightarrow> [] | Some s \<Rightarrow> inner (Some s))"

text \<open>
  \<open>formSchema\<close>: the issues of a candidate payload, field by field in the order of the
  schema. The pattern behind \<open>.email()\<close> belongs to the validation library and is the
  parameter \<open>emailRegex\<close>.
\<close>

definition formSchema :: "(jsstring \<Rightarrow> bool) \<Rightarrow> lead_fields \<Rightarrow> issue list" where
  "formSchema emailRegex v =
     map (Pair ParentName)
       (zstring [zmin 2 ''Name must be at least 2 characters'',
                 zregex nameRegex ''Only alphabets allowed''] (parentName v)) @
     map (Pair ChildGrade)
       (zstring [zmin 1 ''Please select a grade''] (childGrade v)) @
     map (Pair SchoolName)
       (zoptional (zstring [zregex schoolRegex ''Only alphabets allowed'']) (schoolName v)) @
     map (Pair City)
       (zstring [zmin 2 ''City must be at least 2 characters'',
                 zregex nameRegex ''Only alphabets allowed''] (city v)) @
     map (Pair MobileNumber)
       (zstring [zregex mobileRegex ''Must be exactly 10 digits''] (mobileNumber v)) @
     map (Pair Email)
       (zoptional (zstring [zregex emailRegex ''Please enter a valid email address''])
          (email v))"

text \<open>The grade list the page declares, and the values its grade dropdown offers.\<close>

definition gradeOptions :: "jsstring list" where
  "gradeOptions = map utf16
     [''Class 1'', ''Class 2'', ''Class 3'', ''Class 4'', ''Class 5'', ''Class 6'',
      ''Class 7'', ''Class 8'', ''Class 9'', ''Class 10'', ''Class 11'', ''Class 12'']"

definition selectItems :: "jsstring list" where
  "selectItems = map utf16
     [''Pre-primary'', ''Lower primary'', ''Higher primary'', ''Secondary'',
      ''Higher secondary'']"

definition defaultValues :: lead_fields where
  "defaultValues = \<lparr> parentName = Some [], childGrade = Some [], schoolName = Some [],
     city = Some [], mobileNumber = Some [], email = Some [] \<rparr>"


section \<open>The page: submitting the form\<close>

text \<open>
  The state of the page that the submission touches: the form (its values and the errors
  shown under the fields), the \<open>isSubmitting\<close> flag, the toasts shown so far, and the calls of
  \<open>apiRequest\<close> made so far. \<open>apiRequest\<close> is defined in the query-client module; here every
  call of it is recorded as one request, and what becomes of the call is the parameter
  \<open>net\<close>: the promise is fulfilled, is rejected, or stays pending.
\<close>

datatype settle = Fulfilled | Rejected | Pending

datatype variant = Default | Destructive

record toast =
  title :: string
  description :: string
  variant :: variant

record request =
  httpMethod :: string
  url :: string
  payload :: lead_fields

record page =
  formValues :: lead_fields
  formErrors :: "issue list"
  isSubmitting :: bool
  toasts :: "toast list"
  requests :: "request list"

text \<open>The error shown under a field: the first issue reported on it.\<close>

definition fieldError :: "page \<Rightarrow> field \<Rightarrow> string option" where
  "fieldError st f = map_of (formErrors st) f"

text \<open>\<open>form.reset()\<close>: back to the default values, errors cleared.\<close>

definition reset :: "page \<Rightarrow> page" where
  "reset st = st\<lparr> formValues := defaultValues, formErrors := [] \<rparr>"

definition showToast :: "toast \<Rightarrow> page \<Rightarrow> page" where
  "showToast t st = st\<lparr> toasts := toasts st @ [t] \<rparr>"

definition successToast :: toast where
  "successToast = \<lparr> title = ''Form submitted successfully!'',
     description = ''Thank you for your interest in HaloRide. We'll get back to you soon.'',
     variant = Default \<rparr>"

definition errorToast :: toast where
  "errorToast = \<lparr> title = ''Error submitting form'',
     description = ''Please try again later.'', variant = Destructive \<rparr>"

text \<open>
  Modelled from the spec: \<open>apiRequest\<close> of the query-client module, which is not among the
  sources. A call issues one request with the given method, to the given URL, with the
  given body (the lead creation endpoint is \<open>POST /api/leads\<close> with a body matching the
  form schema).
\<close>

definition apiRequest :: "string \<Rightarrow> string \<Rightarrow> lead_fields \<Rightarrow> page \<Rightarrow> page" where
  "apiRequest m u d st =
     st\<lparr> requests := requests st @ [\<lparr> httpMethod = m, url = u, payload = d \<rparr>] \<rparr>"

text \<open>
  \<open>onSubmit\<close>: the flag is raised, the request is sent; when it is fulfilled the success
  toast is shown and the form reset, when it is rejected the error toast is shown; in both
  cases the \<open>finally\<close> block lowers the flag. While the request is pending nothing further
  happens.
\<close>

definition onSubmit :: "settle \<Rightarrow> lead_fields \<Rightarrow> page \<Rightarrow> page" where
  "onSubmit net data st =
     (let st1 = st\<lparr> isSubmitting := True \<rparr>;
          st2 = apiRequest ''POST'' ''/api/leads'' data st1
      in case net of
           Fulfilled \<Rightarrow> (reset (showToast successToast st2))\<lparr> isSubmitting := False \<rparr>
         | Rejected \<Rightarrow> (showToast errorToast st2)\<lparr> isSubmitting := False \<rparr>
         | Pending \<Rightarrow> st2)"

text \<open>
  \<open>form.handleSubmit(onSubmit)\<close> with the schema as resolver: the current values are
  validated; with no issue the errors are cleared and \<open>onSubmit\<close> runs on the values,
  otherwise the issues become the errors of the form and \<open>onSubmit\<close> is not called.
\<close>

definition handleSubmit :: "(jsstring \<Rightarrow> bool) \<Rightarrow> settle \<Rightarrow> page \<Rightarrow> page" where
  "handleSubmit emailRegex net st =
     (let issues = formSchema emailRegex (formValues st)
      in if issues = [] then onSubmit net (formValues st) (st\<lparr> formErrors := [] \<rparr>)
         else st\<lparr> formErrors := issues \<rparr>)"


section \<open>The configuration loader\<close>

text \<open>
  A parsed JSON value. The loader only tests values for truth, and a number is false
  exactly when it is zero, so a number is kept as an integer. In an object a later entry
  with the same key replaces an earlier one.
\<close>

datatype json =
    JNull
  | JBool bool
  | JNum int
  | JStr jsstring
  | JArr "json list"
  | JObj "(jsstring \<times> json) list"

text \<open>\<open>!v\<close> is false exactly for the truthy values.\<close>

fun truthy :: "json \<Rightarrow> bool" where
  "truthy JNull = False"
| "truthy (JBool b) = b"
| "truthy (JNum n) = (n \<noteq> 0)"
| "truthy (JStr s) = (s \<noteq> [])"
| "truthy (JArr xs) = True"
| "truthy (JObj kvs) = True"

datatype js_error = Error jsstring | TypeError | SyntaxError | NetworkError | ClientError

text \<open>
  \<open>config.name\<close> for a name that no built-in prototype defines (as the two credential
  names): reading a property of \<open>null\<close> throws, an object gives the value of the key or
  \<open>undefined\<close> (\<open>None\<close>), every other value gives \<open>undefined\<close>.
\<close>

definition getProp :: "json \<Rightarrow> jsstring \<Rightarrow> js_error + json option" where
  "getProp v name =
     (case v of JNull \<Rightarrow> Inl TypeError
      | JObj kvs \<Rightarrow> Inr (map_of (rev kvs) name)
      | _ \<Rightarrow> Inr None)"

text \<open>
  What \<open>fetch('/api/config')\<close> comes back with: the promise is rejected (the endpoint is not
  reached), or there is a response with its \<open>ok\<close> flag and the outcome of
  \<open>response.json()\<close>, which is \<open>None\<close> when the body is not JSON and the call throws.
\<close>

datatype response = Response (ok: bool) (json: "json option")

datatype fetch_result = FetchFailed | Fetched response

text \<open>
  A store client. \<open>createClient\<close> is the constructor of the store library: whether it
  accepts a pair of credentials or throws is the parameter \<open>accepts\<close>. Every client it
  builds is a new object; \<open>clientId\<close> tells them apart.
\<close>

record client =
  clientId :: nat
  clientUrl :: json
  clientKey :: json

text \<open>A row as \<open>submitLead\<close> hands it to the store; \<open>None\<close> is \<open>null\<close> or a missing value.\<close>

record lead_row =
  parent_name :: "jsstring option"
  child_grade :: "jsstring option"
  school_name :: "jsstring option"
  city_col :: "jsstring option"
  mobile_number :: "jsstring option"
  email_col :: "jsstring option"
  created_at :: jsstring

text \<open>
  The three module variables of the loader, and what the module has done so far: the
  number of clients constructed, the URLs fetched, and the rows sent for insertion with
  the table they were sent to.
\<close>

record supabase_state =
  supabaseUrl :: json
  supabaseAnonKey :: json
  supabaseClient :: "client option"
  created :: nat
  fetched :: "string list"
  inserted :: "(string \<times> lead_row) list"

definition initialState :: supabase_state where
  "initialState = \<lparr> supabaseUrl = JStr [], supabaseAnonKey = JStr [],
     supabaseClient = None, created = 0, fetched = [], inserted = [] \<rparr>"

definition createClient ::
  "(json \<Rightarrow> json \<Rightarrow> bool) \<Rightarrow> json \<Rightarrow> json \<Rightarrow> supabase_state
     \<Rightarrow> (js_error + client) \<times> supabase_state" where
  "createClient accepts u k st =
     (if accepts u k
      then (Inr \<lparr> clientId = created st, clientUrl = u, clientKey = k \<rparr>,
            st\<lparr> created := Suc (created st) \<rparr>)
      else (Inl ClientError, st))"

definition credentialsNotFound :: js_error where
  "credentialsNotFound = Error (utf16 ''Supabase credentials not found in server config'')"

text \<open>
  \<open>initSupabase\<close>. Every error is logged and thrown again by the \<open>catch\<close> block, so it is
  the result of the call. The two module variables for the credentials are written before
  the client is constructed; \<open>supabaseClient\<close> is written only when that succeeded.
\<close>

definition initSupabase ::
  "(json \<Rightarrow> json \<Rightarrow> bool) \<Rightarrow> fetch_result \<Rightarrow> supabase_state
     \<Rightarrow> (js_error + client) \<times> supabase_state" where
  "initSupabase accepts fr st =
     (let st1 = st\<lparr> fetched := fetched st @ [''/api/config''] \<rparr>
      in case fr of
           FetchFailed \<Rightarrow> (Inl NetworkError, st1)
         | Fetched response \<Rightarrow>
             if \<not> ok response
             then (Inl (Error (utf16 ''Failed to fetch Supabase configuration'')), st1)
             else
               (case json response of
                  None \<Rightarrow> (Inl SyntaxError, st1)
                | Some config \<Rightarrow>
                    (case getProp config (utf16 ''supabaseUrl'') of
                       Inl e \<Rightarrow> (Inl e, st1)
                     | Inr None \<Rightarrow> (Inl credentialsNotFound, st1)
                     | Inr (Some u) \<Rightarrow>
                         if \<not> truthy u then (Inl credentialsNotFound, st1)
                         else
                           (case getProp config (utf16 ''supabaseAnonKey'') of
                              Inl e \<Rightarrow> (Inl e, st1)
                            | Inr None \<Rightarrow> (Inl credentialsNotFound, st1)
                            | Inr (Some k) \<Rightarrow>
                                if \<not> truthy k then (Inl credentialsNotFound, st1)
                                else
                                  (let st2 = st1\<lparr> supabaseUrl := u, supabaseAnonKey := k \<rparr>
                                   in case createClient accepts u k st2 of
                                        (Inl e, st3) \<Rightarrow> (Inl e, st3)
                                      | (Inr c, st3) \<Rightarrow>
                                          (Inr c, st3\<lparr> supabaseClient := Some c \<rparr>))))))"

text \<open>\<open>getSupabase\<close>: the cached client when there is one, else an initialization.\<close>

definition getSupabase ::
  "(json \<Rightarrow> json \<Rightarrow> bool) \<Rightarrow> fetch_result \<Rightarrow> supabase_state
     \<Rightarrow> (js_error + client) \<times> supabase_state" where
  "getSupabase accepts fr st =
     (case supabaseClient st of
        None \<Rightarrow> initSupabase accepts fr st
      | Some c \<Rightarrow> (Inr c, st))"

text \<open>
  A run of calls of \<open>getSupabase\<close>, one after the other, each awaited before the next
  starts; the list gives what a fetch would come back with at each call.
\<close>

fun getSupabaseRun ::
  "(json \<Rightarrow> json \<Rightarrow> bool) \<Rightarrow> fetch_result list \<Rightarrow> supabase_state
     \<Rightarrow> (js_error + client) list \<times> supabase_state" where
  "getSupabaseRun accepts [] st = ([], st)"
| "getSupabaseRun accepts (fr # frs) st =
     (case getSupabase accepts fr st of
        (r, st1) \<Rightarrow> (case getSupabaseRun accepts frs st1 of (rs, st2) \<Rightarrow> (r # rs, st2)))"

text \<open>
  Two calls of \<open>getSupabase\<close> that overlap: the second starts while the first waits for
  its fetch. \<open>supabaseClient\<close> is written at the very end of \<open>initSupabase\<close>, after both
  of its awaits, so each call tests the variable before either has written it: with no
  client cached both run an initialization, here the first call finishing first; with a
  client cached both return it.
\<close>

definition getSupabaseOverlapping ::
  "(json \<Rightarrow> json \<Rightarrow> bool) \<Rightarrow> fetch_result \<Rightarrow> fetch_result \<Rightarrow> supabase_state
     \<Rightarrow> ((js_error + client) \<times> (js_error + client)) \<times> supabase_state" where
  "getSupabaseOverlapping accepts fr1 fr2 st =
     (case supabaseClient st of
        Some c \<Rightarrow> ((Inr c, Inr c), st)
      | None \<Rightarrow>
          (case initSupabase accepts fr1 st of
             (r1, st1) \<Rightarrow>
               (case initSupabase accepts fr2 st1 of (r2, st2) \<Rightarrow> ((r1, r2), st2))))"


section \<open>The application shell\<close>

record app =
  isSupabaseInitialized :: bool
  initError :: "string option"

datatype screen = Loading | ConnectionError string | Routes

definition initialApp :: app where
  "initialApp = \<lparr> isSupabaseInitialized = False, initError = None \<rparr>"

text \<open>The effect run when the application loads.\<close>

definition setupSupabase ::
  "(json \<Rightarrow> json \<Rightarrow> bool) \<Rightarrow> fetch_result \<Rightarrow> app \<times> supabase_state
     \<Rightarrow> app \<times> supabase_state" where
  "setupSupabase accepts fr = (\<lambda>(a, st).
     case initSupabase accepts fr st of
       (Inr c, st1) \<Rightarrow> (a\<lparr> isSupabaseInitialized := True \<rparr>, st1)
     | (Inl e, st1) \<Rightarrow> (a\<lparr> initError := Some ''Failed to initialize backend services'' \<rparr>, st1))"

text \<open>What \<open>App\<close> renders: the spinner, the error page with its Try Again button, or the routes.\<close>

definition render :: "app \<Rightarrow> screen" where
  "render a =
     (if \<not> isSupabaseInitialized a \<and> initError a = None then Loading
      else case initError a of Some msg \<Rightarrow> ConnectionError msg | None \<Rightarrow> Routes)"


section \<open>The lead service\<close>

record lead = lead_fields +
  id' :: "jsstring option"
  createdAt :: "jsstring option"

text \<open>The row the store sends back, and the error object of a failed insertion.\<close>

record stored_row = lead_row +
  id_col :: jsstring

record store_error =
  message :: jsstring
  hint :: "jsstring option"

record insert_reply =
  data :: "stored_row option"
  error :: "store_error option"

text \<open>\<open>v || null\<close> and \<open>v || undefined\<close> on an optional string.\<close>

definition orAbsent :: "jsstring option \<Rightarrow> jsstring option" where
  "orAbsent v = (case v of None \<Rightarrow> None | Some s \<Rightarrow> if s = [] then None else Some s)"

text \<open>The object literal given to \<open>insert\<close>; \<open>now\<close> is \<open>new Date().toISOString()\<close>.\<close>

definition leadRow :: "jsstring \<Rightarrow> lead_fields \<Rightarrow> lead_row" where
  "leadRow now leadData =
     \<lparr> parent_name = parentName leadData,
       child_grade = childGrade leadData,
       school_name = orAbsent (schoolName leadData),
       city_col = city leadData,
       mobile_number = mobileNumber leadData,
       email_col =
         (case email leadData of
            None \<Rightarrow> None
          | Some s \<Rightarrow> if s \<noteq> [] \<and> trim s \<noteq> [] then Some s else None),
       created_at = now \<rparr>"

definition storeError :: "store_error \<Rightarrow> js_error" where
  "storeError e =
     Error (utf16 ''Supabase error: '' @ message e @ utf16 ''. '' @
            (case orAbsent (hint e) of None \<Rightarrow> [] | Some h \<Rightarrow> h))"

text \<open>
  \<open>leadService.submitLead\<close>: the client is obtained, one row is sent to the table
  \<open>leads\<close>, and the reply of the store is turned into the lead or into the error thrown.
\<close>

definition submitLead ::
  "(json \<Rightarrow> json \<Rightarrow> bool) \<Rightarrow> fetch_result \<Rightarrow> jsstring \<Rightarrow> insert_reply \<Rightarrow> lead_fields
     \<Rightarrow> supabase_state \<Rightarrow> (js_error + lead) \<times> supabase_state" where
  "submitLead accepts fr now reply leadData st =
     (case getSupabase accepts fr st of
        (Inl e, st1) \<Rightarrow> (Inl e, st1)
      | (Inr supabase, st1) \<Rightarrow>
          (let st2 = st1\<lparr> inserted := inserted st1 @ [(''leads'', leadRow now leadData)] \<rparr>
           in case error reply of
                Some e \<Rightarrow> (Inl (storeError e), st2)
              | None \<Rightarrow>
                  (case data reply of
                     None \<Rightarrow> (Inl (Error (utf16 ''Failed to create lead: No data returned'')), st2)
                   | Some d \<Rightarrow>
                       (Inr \<lparr> parentName = parent_name d,
                              childGrade = child_grade d,
                              schoolName = orAbsent (school_name d),
                              city = city_col d,
                              mobileNumber = mobile_number d,
                              email = orAbsent (email_col d),
                              id' = Some (id_col d),
                              createdAt = Some (created_at d) \<rparr>, st2))))"


section \<open>Sample inputs\<close>

text \<open>
  A sample e-mail pattern for the worked examples, \<open>/^[^@\s]+@[^@\s]+$/\<close>. The theorems
  below hold for every pattern.
\<close>

definition sampleEmailRegex :: "jsstring \<Rightarrow> bool" where
  "sampleEmailRegex s \<longleftrightarrow>
     (let local = takeWhile (\<lambda>c. c \<noteq> 0x40) s; rest = dropWhile (\<lambda>c. c \<noteq> 0x40) s
      in local \<noteq> [] \<and> rest \<noteq> [] \<and> tl rest \<noteq> [] \<and>
         list_all (\<lambda>c. c \<noteq> 0x40 \<and> \<not> isWhiteSpace c) (local @ tl rest))"

definition blankPage :: page where
  "blankPage = \<lparr> formValues = defaultValues, formErrors = [], isSubmitting = False,
     toasts = [], requests = [] \<rparr>"

text \<open>The payload of the scenario: no school name, an empty e-mail address.\<close>

definition anjali :: lead_fields where
  "anjali = \<lparr> parentName = Some (utf16 ''Anjali Patel''),
     childGrade = Some (utf16 ''Class 5''), schoolName = None,
     city = Some (utf16 ''Pune''), mobileNumber = Some (utf16 ''9876543210''),
     email = Some [] \<rparr>"

text \<open>A page holding the given values, with nothing submitted yet.\<close>

definition pageWith :: "lead_fields \<Rightarrow> page" where
  "pageWith v = blankPage\<lparr> formValues := v \<rparr>"

text \<open>A payload that the schema accepts, and variants of it that differ in one field.\<close>

definition validLead :: lead_fields where
  "validLead = anjali\<lparr> email := Some (utf16 ''anjali@example.com'') \<rparr>"

definition shortMobile :: lead_fields where
  "shortMobile = validLead\<lparr> mobileNumber := Some (utf16 ''98765'') \<rparr>"

definition tabbedName :: lead_fields where
  "tabbedName = validLead\<lparr> parentName := Some (utf16 ''Anjali'' @ [0x09] @ utf16 ''Patel'') \<rparr>"

definition digitCity :: lead_fields where
  "digitCity = validLead\<lparr> city := Some (utf16 ''Pune 411001'') \<rparr>"

definition unlistedGrade :: lead_fields where
  "unlistedGrade = validLead\<lparr> childGrade := Some (utf16 ''Grade 99'') \<rparr>"

definition blankSchool :: lead_fields where
  "blankSchool = validLead\<lparr> schoolName := Some [] \<rparr>"

text \<open>A client constructor that accepts string credentials, and configuration bodies.\<close>

definition sampleAccepts :: "json \<Rightarrow> json \<Rightarrow> bool" where
  "sampleAccepts u k = (case (u, k) of (JStr x, JStr y) \<Rightarrow> True | _ \<Rightarrow> False)"

definition goodConfig :: json where
  "goodConfig = JObj [(utf16 ''supabaseUrl'', JStr (utf16 ''https://halo.supabase.co'')),
                      (utf16 ''supabaseAnonKey'', JStr (utf16 ''anon-key''))]"

definition noKeyConfig :: json where
  "noKeyConfig = JObj [(utf16 ''supabaseUrl'', JStr (utf16 ''https://halo.supabase.co''))]"

definition emptyUrlConfig :: json where
  "emptyUrlConfig = JObj [(utf16 ''supabaseUrl'', JStr []),
                          (utf16 ''supabaseAnonKey'', JStr (utf16 ''anon-key''))]"

text \<open>
  The loader after one successful initialization from \<open>goodConfig\<close>, and after one failed
  fetch.
\<close>

definition sampleClient :: client where
  "sampleClient = \<lparr> clientId = 0, clientUrl = JStr (utf16 ''https://halo.supabase.co''),
     clientKey = JStr (utf16 ''anon-key'') \<rparr>"

definition readyState :: supabase_state where
  "readyState = \<lparr> supabaseUrl = JStr (utf16 ''https://halo.supabase.co''),
     supabaseAnonKey = JStr (utf16 ''anon-key''), supabaseClient = Some sampleClient,
     created = 1, fetched = [''/api/config''], inserted = [] \<rparr>"

definition failedState :: supabase_state where
  "failedState = initialState\<lparr> fetched := [''/api/config''] \<rparr>"

text \<open>The loader after a second successful initialization from \<open>goodConfig\<close>.\<close>

definition secondClient :: client where
  "secondClient = sampleClient\<lparr> clientId := 1 \<rparr>"

definition twiceState :: supabase_state where
  "twiceState = readyState\<lparr> supabaseClient := Some secondClient, created := 2,
     fetched := [''/api/config'', ''/api/config''] \<rparr>"


section \<open>Validation: what each field reports\<close>

lemmas sample_defs = validLead_def shortMobile_def tabbedName_def digitCity_def
  unlistedGrade_def blankSchool_def pageWith_def anjali_def blankPage_def defaultValues_def
  utf16_def

lemmas class_defs = isAlphaOrSpace_def isAlpha_def isWhiteSpace_def isDigit_def

lemmas schema_defs = formSchema_def zmin_def zregex_def nameRegex_def schoolRegex_def
  mobileRegex_def sampleEmailRegex_def

lemmas submit_defs = handleSubmit_def onSubmit_def apiRequest_def showToast_def reset_def
  fieldError_def Let_def

lemma map_of_Pair:
  "map_of (map (Pair f) ms) g = (if f = g \<and> ms \<noteq> [] then Some (hd ms) else None)"
  by (induction ms) auto

lemma zoptional_simps [simp]:
  "zoptional inner None = []" "zoptional inner (Some s) = inner (Some s)"
  by (simp_all add: zoptional_def)

lemma zstring_simps [simp]:
  "zstring cs None = [''Required'']" "zstring cs (Some s) = concat (map (\<lambda>c. c s) cs)"
  by (simp_all add: zstring_def)

lemma parentName_issue:
  "map_of (formSchema e v) ParentName =
     (case parentName v of None \<Rightarrow> Some ''Required''
      | Some s \<Rightarrow> if length s < 2 then Some ''Name must be at least 2 characters''
                  else if nameRegex s then None else Some ''Only alphabets allowed'')"
  by (simp add: formSchema_def map_of_Pair zregex_def zmin_def map_add_def split: option.splits)

lemma childGrade_issue:
  "map_of (formSchema e v) ChildGrade =
     (case childGrade v of None \<Rightarrow> Some ''Required''
      | Some s \<Rightarrow> if s = [] then Some ''Please select a grade'' else None)"
  by (simp add: formSchema_def map_of_Pair zregex_def zmin_def map_add_def split: option.splits)

lemma schoolName_issue:
  "map_of (formSchema e v) SchoolName =
     (case schoolName v of None \<Rightarrow> None
      | Some s \<Rightarrow> if schoolRegex s then None else Some ''Only alphabets allowed'')"
  by (simp add: formSchema_def map_of_Pair zregex_def zmin_def map_add_def split: option.splits)

lemma city_issue:
  "map_of (formSchema e v) City =
     (case city v of None \<Rightarrow> Some ''Required''
      | Some s \<Rightarrow> if length s < 2 then Some ''City must be at least 2 characters''
                  else if nameRegex s then None else Some ''Only alphabets allowed'')"
  by (simp add: formSchema_def map_of_Pair zregex_def zmin_def map_add_def split: option.splits)

lemma mobileNumber_issue:
  "map_of (formSchema e v) MobileNumber =
     (case mobileNumber v of None \<Rightarrow> Some ''Required''
      | Some s \<Rightarrow> if mobileRegex s then None else Some ''Must be exactly 10 digits'')"
  by (simp add: formSchema_def map_of_Pair zregex_def map_add_def split: option.splits)

lemma email_issue:
  "map_of (formSchema e v) Email =
     (case email v of None \<Rightarrow> None
      | Some s \<Rightarrow> if e s then None else Some ''Please enter a valid email address'')"
  by (simp add: formSchema_def map_of_Pair zregex_def map_add_def split: option.splits)

lemma validLead_ok: "formSchema sampleEmailRegex validLead = []"
  by (simp add: sample_defs class_defs schema_defs)

lemma bad_char_regex:
  assumes "c \<in> set s" "\<not> isAlpha c" "\<not> isWhiteSpace c"
  shows "\<not> nameRegex s" "\<not> schoolRegex s"
  using assms by (auto simp: nameRegex_def schoolRegex_def list_all_iff isAlphaOrSpace_def)


section \<open>Submission: what a press of the button does\<close>

lemma handleSubmit_invalid:
  "formSchema e (formValues st) \<noteq> [] \<Longrightarrow>
   handleSubmit e net st = st\<lparr> formErrors := formSchema e (formValues st) \<rparr>"
  by (simp add: handleSubmit_def Let_def)

lemma handleSubmit_valid:
  "formSchema e (formValues st) = [] \<Longrightarrow>
   handleSubmit e net st = onSubmit net (formValues st) (st\<lparr> formErrors := [] \<rparr>)"
  by (simp add: handleSubmit_def Let_def)

text \<open>An issue on any field stops the submission: nothing but the errors of the form changes.\<close>

lemma issue_blocks:
  assumes "map_of (formSchema e (formValues st)) f = Some msg"
  shows "fieldError (handleSubmit e net st) f = Some msg \<and>
         requests (handleSubmit e net st) = requests st \<and>
         toasts (handleSubmit e net st) = toasts st \<and>
         formValues (handleSubmit e net st) = formValues st"
proof -
  from assms have "formSchema e (formValues st) \<noteq> []" by auto
  then show ?thesis using assms by (simp add: handleSubmit_invalid fieldError_def)
qed

text \<open>
  C1. Whenever the mobile number of the form is not a string of exactly ten decimal digits,
  pressing submit leaves an error on the field \<open>mobileNumber\<close> (the message of the pattern,
  or \<open>Required\<close> when the value is missing) and sends no request.
\<close>

theorem mobileNumber_rejected_locally:
  assumes "\<not> (\<exists>s. mobileNumber (formValues st) = Some s \<and> length s = 10 \<and> list_all isDigit s)"
  shows "fieldError (handleSubmit emailRegex net st) MobileNumber \<in>
           {Some ''Must be exactly 10 digits'', Some ''Required''} \<and>
         requests (handleSubmit emailRegex net st) = requests st"
proof (cases "mobileNumber (formValues st)")
  case None
  then have "map_of (formSchema emailRegex (formValues st)) MobileNumber = Some ''Required''"
    by (simp add: mobileNumber_issue)
  from issue_blocks [OF this, of net] show ?thesis by simp
next
  case (Some s)
  with assms have "\<not> mobileRegex s" by (simp add: mobileRegex_def)
  with Some have "map_of (formSchema emailRegex (formValues st)) MobileNumber =
      Some ''Must be exactly 10 digits''"
    by (simp add: mobileNumber_issue)
  from issue_blocks [OF this, of net] show ?thesis by simp
qed

text \<open>
  C1, at the scenario of the specification: the mobile number \<open>98765\<close> is rejected on its
  field and no request leaves the page.
\<close>

theorem mobileNumber_rejected_locally_witness:
  "\<not> (\<exists>s. mobileNumber (formValues (pageWith shortMobile)) = Some s \<and>
          length s = 10 \<and> list_all isDigit s) \<and>
   fieldError (handleSubmit sampleEmailRegex Fulfilled (pageWith shortMobile)) MobileNumber \<in>
     {Some ''Must be exactly 10 digits'', Some ''Required''} \<and>
   requests (handleSubmit sampleEmailRegex Fulfilled (pageWith shortMobile)) =
     requests (pageWith shortMobile)"
proof -
  have h: "\<not> (\<exists>s. mobileNumber (formValues (pageWith shortMobile)) = Some s \<and>
                 length s = 10 \<and> list_all isDigit s)"
    by (simp add: sample_defs)
  from mobileNumber_rejected_locally [OF h, of sampleEmailRegex Fulfilled] h
  show ?thesis by simp
qed

text \<open>
  C2. A payload that passes validation is sent in exactly one request, a \<open>POST\<close> to
  \<open>/api/leads\<close> carrying the payload as it is; whatever becomes of that request no second
  one is sent, and when it is fulfilled exactly one toast is added, the one titled
  \<open>Form submitted successfully!\<close> in the default (not the destructive) variant.
\<close>

theorem valid_payload_one_request:
  assumes "formSchema emailRegex (formValues st) = []"
  shows "requests (handleSubmit emailRegex net st) =
           requests st @
             [\<lparr> httpMethod = ''POST'', url = ''/api/leads'', payload = formValues st \<rparr>] \<and>
         (net = Fulfilled \<longrightarrow>
            toasts (handleSubmit emailRegex net st) =
              toasts st @
                [\<lparr> title = ''Form submitted successfully!'',
                   description =
                     ''Thank you for your interest in HaloRide. We'll get back to you soon.'',
                   variant = Default \<rparr>])"
  using assms
  by (cases net)
    (simp_all add: handleSubmit_valid onSubmit_def apiRequest_def showToast_def reset_def
      successToast_def Let_def)

text \<open>C2, at a valid payload whose request is fulfilled.\<close>

theorem valid_payload_one_request_witness:
  "formSchema sampleEmailRegex (formValues (pageWith validLead)) = [] \<and>
   requests (handleSubmit sampleEmailRegex Fulfilled (pageWith validLead)) =
     requests (pageWith validLead) @
       [\<lparr> httpMethod = ''POST'', url = ''/api/leads'', payload = validLead \<rparr>] \<and>
   toasts (handleSubmit sampleEmailRegex Fulfilled (pageWith validLead)) =
     [\<lparr> title = ''Form submitted successfully!'',
        description = ''Thank you for your interest in HaloRide. We'll get back to you soon.'',
        variant = Default \<rparr>]"
proof -
  have h: "formSchema sampleEmailRegex (formValues (pageWith validLead)) = []"
    by (simp add: pageWith_def validLead_ok)
  from valid_payload_one_request [OF h, of Fulfilled] h
  show ?thesis by (simp add: pageWith_def blankPage_def)
qed

text \<open>
  C3, as stated, fails on the page. The three name patterns use the class \<open>\s\<close>, which is
  wider than the space character: a parent name with a tab between its two words holds a
  character that is neither an ASCII letter nor a space, yet the payload has no issue and
  is sent.
\<close>

theorem tab_in_name_is_submitted:
  "parentName tabbedName = Some (utf16 ''Anjali'' @ [0x09] @ utf16 ''Patel'') \<and>
   \<not> isAlpha 0x09 \<and> (0x09 :: jschar) \<noteq> 0x20 \<and>
   formSchema sampleEmailRegex tabbedName = [] \<and>
   requests (handleSubmit sampleEmailRegex Fulfilled (pageWith tabbedName)) =
     [\<lparr> httpMethod = ''POST'', url = ''/api/leads'', payload = tabbedName \<rparr>]"
proof -
  have f: "formSchema sampleEmailRegex tabbedName = []"
    by (simp add: sample_defs class_defs schema_defs)
  have "formValues (pageWith tabbedName) = tabbedName" by (simp add: pageWith_def)
  with f have "requests (handleSubmit sampleEmailRegex Fulfilled (pageWith tabbedName)) =
     [\<lparr> httpMethod = ''POST'', url = ''/api/leads'', payload = tabbedName \<rparr>]"
    by (simp add: submit_defs pageWith_def blankPage_def)
  with f show ?thesis by (simp add: tabbedName_def isAlpha_def)
qed

text \<open>
  C3, amended. Whenever \<open>parentName\<close>, \<open>city\<close> or \<open>schoolName\<close> holds a character that is
  neither an ASCII letter nor a white-space character of the class \<open>\s\<close> (a digit or a
  symbol, say), pressing submit leaves an error on that field and sends no request.
\<close>

theorem name_fields_reject_other_characters:
  assumes "(f = ParentName \<and> parentName (formValues st) = Some s) \<or>
           (f = City \<and> city (formValues st) = Some s) \<or>
           (f = SchoolName \<and> schoolName (formValues st) = Some s)"
    and "c \<in> set s" and "\<not> isAlpha c" and "\<not> isWhiteSpace c"
  shows "fieldError (handleSubmit emailRegex net st) f \<noteq> None \<and>
         requests (handleSubmit emailRegex net st) = requests st"
proof -
  have "\<exists>msg. map_of (formSchema emailRegex (formValues st)) f = Some msg"
    using assms(1) bad_char_regex [OF assms(2-4)]
    by (auto simp: parentName_issue city_issue schoolName_issue)
  then obtain msg where m: "map_of (formSchema emailRegex (formValues st)) f = Some msg" ..
  from issue_blocks [OF m, of net] show ?thesis by simp
qed

text \<open>C3, amended, at a city that holds digits.\<close>

theorem name_fields_reject_other_characters_witness:
  "((City = ParentName \<and> parentName (formValues (pageWith digitCity)) = Some (utf16 ''Pune 411001'')) \<or>
    (City = City \<and> city (formValues (pageWith digitCity)) = Some (utf16 ''Pune 411001'')) \<or>
    (City = SchoolName \<and> schoolName (formValues (pageWith digitCity)) = Some (utf16 ''Pune 411001''))) \<and>
   of_char CHR ''4'' \<in> set (utf16 ''Pune 411001'') \<and>
   \<not> isAlpha (of_char CHR ''4'') \<and> \<not> isWhiteSpace (of_char CHR ''4'') \<and>
   fieldError (handleSubmit sampleEmailRegex Fulfilled (pageWith digitCity)) City \<noteq> None \<and>
   requests (handleSubmit sampleEmailRegex Fulfilled (pageWith digitCity)) =
     requests (pageWith digitCity)"
proof -
  have 1: "(City = ParentName \<and>
              parentName (formValues (pageWith digitCity)) = Some (utf16 ''Pune 411001'')) \<or>
           (City = City \<and> city (formValues (pageWith digitCity)) = Some (utf16 ''Pune 411001'')) \<or>
           (City = SchoolName \<and>
              schoolName (formValues (pageWith digitCity)) = Some (utf16 ''Pune 411001''))"
    by (simp add: pageWith_def digitCity_def)
  have 2: "(of_char CHR ''4'' :: jschar) \<in> set (utf16 ''Pune 411001'')"
    by (simp add: utf16_def)
  have 3: "\<not> isAlpha (of_char CHR ''4'')" by (simp add: isAlpha_def)
  have 4: "\<not> isWhiteSpace (of_char CHR ''4'')" by (simp add: isWhiteSpace_def)
  from name_fields_reject_other_characters [OF 1 2 3 4, of sampleEmailRegex Fulfilled] 1 2 3 4
  show ?thesis by simp
qed

text \<open>
  C4, as stated, fails on the page. The schema asks of \<open>childGrade\<close> only that it is a
  string of at least one character: \<open>Grade 99\<close> is neither in the declared grade list nor
  among the values of the dropdown, yet the payload has no issue and is sent.
\<close>

theorem unlisted_grade_is_submitted:
  "childGrade unlistedGrade = Some (utf16 ''Grade 99'') \<and>
   utf16 ''Grade 99'' \<notin> set gradeOptions \<and> utf16 ''Grade 99'' \<notin> set selectItems \<and>
   formSchema sampleEmailRegex unlistedGrade = [] \<and>
   requests (handleSubmit sampleEmailRegex Fulfilled (pageWith unlistedGrade)) =
     [\<lparr> httpMethod = ''POST'', url = ''/api/leads'', payload = unlistedGrade \<rparr>]"
proof -
  have f: "formSchema sampleEmailRegex unlistedGrade = []"
    by (simp add: sample_defs class_defs schema_defs)
  have "formValues (pageWith unlistedGrade) = unlistedGrade" by (simp add: pageWith_def)
  with f have "requests (handleSubmit sampleEmailRegex Fulfilled (pageWith unlistedGrade)) =
     [\<lparr> httpMethod = ''POST'', url = ''/api/leads'', payload = unlistedGrade \<rparr>]"
    by (simp add: submit_defs pageWith_def blankPage_def)
  moreover have "utf16 ''Grade 99'' \<notin> set gradeOptions"
    by (simp add: gradeOptions_def utf16_def)
  moreover have "utf16 ''Grade 99'' \<notin> set selectItems"
    by (simp add: selectItems_def utf16_def)
  ultimately show ?thesis using f by (simp add: unlistedGrade_def)
qed

text \<open>
  C4, amended. After a press of submit the field \<open>childGrade\<close> carries no error exactly
  when its value is a string of at least one character; a payload whose \<open>childGrade\<close> is
  missing or empty sends no request. Membership in the grade bands is not checked.
\<close>

theorem childGrade_accepted_iff_nonempty:
  "(fieldError (handleSubmit emailRegex net st) ChildGrade = None \<longleftrightarrow>
      (\<exists>s. childGrade (formValues st) = Some s \<and> s \<noteq> [])) \<and>
   (\<not> (\<exists>s. childGrade (formValues st) = Some s \<and> s \<noteq> []) \<longrightarrow>
      requests (handleSubmit emailRegex net st) = requests st)"
proof (cases "formSchema emailRegex (formValues st) = []")
  case True
  then have "map_of (formSchema emailRegex (formValues st)) ChildGrade = None" by simp
  then have g: "\<exists>s. childGrade (formValues st) = Some s \<and> s \<noteq> []"
    by (auto simp: childGrade_issue split: option.splits if_splits)
  have "formErrors (handleSubmit emailRegex net st) = []"
    using True
    by (cases net)
      (simp_all add: handleSubmit_valid onSubmit_def apiRequest_def showToast_def reset_def
        Let_def)
  with g show ?thesis by (simp add: fieldError_def)
next
  case False
  then have h: "handleSubmit emailRegex net st =
      st\<lparr> formErrors := formSchema emailRegex (formValues st) \<rparr>"
    by (rule handleSubmit_invalid)
  show ?thesis
    by (auto simp: h fieldError_def childGrade_issue split: option.splits if_splits)
qed

text \<open>C4, amended, at the untouched form, where no grade is selected.\<close>

theorem childGrade_accepted_iff_nonempty_witness:
  "(fieldError (handleSubmit sampleEmailRegex Fulfilled blankPage) ChildGrade = None \<longleftrightarrow>
      (\<exists>s. childGrade (formValues blankPage) = Some s \<and> s \<noteq> [])) \<and>
   \<not> (\<exists>s. childGrade (formValues blankPage) = Some s \<and> s \<noteq> []) \<and>
   requests (handleSubmit sampleEmailRegex Fulfilled blankPage) = requests blankPage"
proof -
  have h: "\<not> (\<exists>s. childGrade (formValues blankPage) = Some s \<and> s \<noteq> [])"
    by (simp add: blankPage_def defaultValues_def)
  from childGrade_accepted_iff_nonempty [of sampleEmailRegex Fulfilled blankPage] h
  show ?thesis by blast
qed

text \<open>
  C5. The payload of the scenario does not pass validation. \<open>.optional()\<close> lets only a
  missing e-mail through; the empty string goes to the e-mail check, and whatever pattern
  that check uses, as long as it rejects the empty string, the one issue of the payload is
  the one on \<open>email\<close>, and pressing submit sends nothing.
\<close>

theorem empty_email_blocks_scenario:
  assumes "\<not> emailRegex []"
  shows "formSchema emailRegex anjali = [(Email, ''Please enter a valid email address'')] \<and>
         requests (handleSubmit emailRegex net (pageWith anjali)) = []"
proof -
  have f: "formSchema emailRegex anjali = [(Email, ''Please enter a valid email address'')]"
    using assms
    by (simp add: formSchema_def anjali_def utf16_def zmin_def zregex_def nameRegex_def
        mobileRegex_def class_defs)
  then show ?thesis by (simp add: handleSubmit_def pageWith_def blankPage_def)
qed

text \<open>C5, with the sample pattern.\<close>

theorem empty_email_blocks_scenario_witness:
  "\<not> sampleEmailRegex [] \<and>
   formSchema sampleEmailRegex anjali = [(Email, ''Please enter a valid email address'')] \<and>
   requests (handleSubmit sampleEmailRegex Fulfilled (pageWith anjali)) = []"
proof -
  have h: "\<not> sampleEmailRegex []" by (simp add: sampleEmailRegex_def)
  from empty_email_blocks_scenario [of sampleEmailRegex Fulfilled] h show ?thesis by simp
qed

text \<open>
  C9. When the request is rejected, exactly one toast is added, the one titled
  \<open>Error submitting form\<close> in the destructive variant; the values of the form are what
  they were, the request just made is the only one added, and the flag is lowered again.
\<close>

theorem rejected_request_keeps_form:
  "toasts (onSubmit Rejected d st) =
     toasts st @
       [\<lparr> title = ''Error submitting form'', description = ''Please try again later.'',
          variant = Destructive \<rparr>] \<and>
   formValues (onSubmit Rejected d st) = formValues st \<and>
   requests (onSubmit Rejected d st) =
     requests st @ [\<lparr> httpMethod = ''POST'', url = ''/api/leads'', payload = d \<rparr>] \<and>
   \<not> isSubmitting (onSubmit Rejected d st)"
  by (simp add: onSubmit_def apiRequest_def showToast_def errorToast_def Let_def)

text \<open>
  C10. After a fulfilled submission every field of the form holds its default, the empty
  string, and a further press of submit, whatever becomes of the network, sends no
  request.
\<close>

theorem fulfilled_submission_resets_form:
  "formValues (onSubmit Fulfilled d st) = defaultValues \<and>
   defaultValues = \<lparr> parentName = Some [], childGrade = Some [], schoolName = Some [],
     city = Some [], mobileNumber = Some [], email = Some [] \<rparr> \<and>
   requests (handleSubmit emailRegex net (onSubmit Fulfilled d st)) =
     requests (onSubmit Fulfilled d st)"
proof -
  have v: "formValues (onSubmit Fulfilled d st) = defaultValues"
    by (simp add: onSubmit_def apiRequest_def showToast_def reset_def Let_def)
  have "map_of (formSchema emailRegex defaultValues) ParentName =
      Some ''Name must be at least 2 characters''"
    by (simp add: parentName_issue defaultValues_def)
  with v have "map_of (formSchema emailRegex (formValues (onSubmit Fulfilled d st))) ParentName =
      Some ''Name must be at least 2 characters''"
    by simp
  from issue_blocks [OF this, of net] v show ?thesis by (simp add: defaultValues_def)
qed


section \<open>The loader: one initialization\<close>

lemmas loader_defs = initSupabase_def getSupabase_def createClient_def getProp_def
  credentialsNotFound_def Let_def

lemmas loader_samples = sampleAccepts_def goodConfig_def noKeyConfig_def emptyUrlConfig_def
  sampleClient_def readyState_def failedState_def secondClient_def twiceState_def
  initialState_def utf16_def

lemma initSupabase_fetched:
  "fetched (snd (initSupabase a fr st)) = fetched st @ [''/api/config'']"
  by (auto simp: initSupabase_def createClient_def Let_def
      split: fetch_result.splits option.splits sum.splits prod.splits if_splits)

lemma initSupabase_inserted:
  "inserted (snd (initSupabase a fr st)) = inserted st"
  by (auto simp: initSupabase_def createClient_def Let_def
      split: fetch_result.splits option.splits sum.splits prod.splits if_splits)

text \<open>A successful initialization caches the client it returns, a new one.\<close>

lemma initSupabase_Inr:
  "initSupabase a fr st = (Inr c, st') \<Longrightarrow>
     supabaseClient st' = Some c \<and> created st' = Suc (created st) \<and> clientId c = created st"
  by (auto simp: initSupabase_def createClient_def Let_def
      split: fetch_result.splits option.splits sum.splits prod.splits if_splits)

text \<open>A failed initialization leaves the cache as it was and constructs nothing.\<close>

lemma initSupabase_Inl:
  "initSupabase a fr st = (Inl e, st') \<Longrightarrow>
     supabaseClient st' = supabaseClient st \<and> created st' = created st"
  by (auto simp: initSupabase_def createClient_def Let_def
      split: fetch_result.splits option.splits sum.splits prod.splits if_splits)

text \<open>When an initialization succeeds.\<close>

lemma initSupabase_succeeds_iff:
  "\<not> isl (fst (initSupabase a fr st)) \<longleftrightarrow>
     (\<exists>config u k. fr = Fetched (Response True (Some config)) \<and>
        getProp config (utf16 ''supabaseUrl'') = Inr (Some u) \<and> truthy u \<and>
        getProp config (utf16 ''supabaseAnonKey'') = Inr (Some k) \<and> truthy k \<and> a u k)"
proof (cases fr)
  case FetchFailed
  then show ?thesis by (simp add: initSupabase_def)
next
  case (Fetched r)
  obtain b j where r: "r = Response b j" by (cases r)
  show ?thesis
  proof (cases "b \<and> j \<noteq> None")
    case False
    then show ?thesis using Fetched r by (auto simp: initSupabase_def Let_def)
  next
    case True
    then obtain config where j: "j = Some config" and b: b by auto
    show ?thesis unfolding Fetched r j using b
      by (auto simp: initSupabase_def createClient_def Let_def
          split: option.splits sum.splits prod.splits if_splits)
  qed
qed

lemma getSupabase_cached:
  "supabaseClient st = Some c \<Longrightarrow> getSupabase a fr st = (Inr c, st)"
  by (simp add: getSupabase_def)

lemma getSupabase_uncached:
  "supabaseClient st = None \<Longrightarrow> getSupabase a fr st = initSupabase a fr st"
  by (simp add: getSupabase_def)

lemma getSupabase_Inr:
  assumes "getSupabase a fr st = (Inr c, st')"
  shows "supabaseClient st' = Some c"
proof (cases "supabaseClient st")
  case None
  with assms have "initSupabase a fr st = (Inr c, st')" by (simp add: getSupabase_uncached)
  from initSupabase_Inr [OF this] show ?thesis by simp
next
  case (Some c')
  with assms show ?thesis by (simp add: getSupabase_cached)
qed

lemma getSupabase_inserted: "inserted (snd (getSupabase a fr st)) = inserted st"
  by (cases "supabaseClient st")
    (simp_all add: getSupabase_uncached getSupabase_cached initSupabase_inserted)

text \<open>Once a client is cached, every call of a run returns it and the state stays put.\<close>

lemma run_ready:
  "supabaseClient st = Some c \<Longrightarrow>
     getSupabaseRun a frs st = (replicate (length frs) (Inr c), st)"
  by (induction frs) (simp_all add: getSupabase_cached)

text \<open>A run constructs one client at most, and none when one is cached already.\<close>

lemma run_created:
  "created (snd (getSupabaseRun a frs st)) \<le>
     (if supabaseClient st = None then Suc (created st) else created st)"
proof (induction frs arbitrary: st)
  case Nil
  then show ?case by simp
next
  case (Cons fr frs)
  obtain r st1 where g: "getSupabase a fr st = (r, st1)" by (cases "getSupabase a fr st")
  obtain rs st2 where t: "getSupabaseRun a frs st1 = (rs, st2)"
    by (cases "getSupabaseRun a frs st1")
  have step: "snd (getSupabaseRun a (fr # frs) st) = st2" using g t by simp
  show ?case
  proof (cases "supabaseClient st")
    case (Some c)
    then show ?thesis by (simp add: run_ready getSupabase_cached)
  next
    case None
    show ?thesis
    proof (cases r)
      case (Inl e)
      with g None have "initSupabase a fr st = (Inl e, st1)"
        by (simp add: getSupabase_uncached)
      from initSupabase_Inl [OF this] None
      have "supabaseClient st1 = None" "created st1 = created st" by simp_all
      with Cons.IH [of st1] t None show ?thesis unfolding step by simp
    next
      case (Inr c)
      with g None have "initSupabase a fr st = (Inr c, st1)"
        by (simp add: getSupabase_uncached)
      from initSupabase_Inr [OF this]
      have "supabaseClient st1 = Some c" "created st1 = Suc (created st)" by simp_all
      with Cons.IH [of st1] t None show ?thesis unfolding step by simp
    qed
  qed
qed

lemma good_fetch:
  "getSupabase sampleAccepts (Fetched (Response True (Some goodConfig))) initialState =
     (Inr sampleClient, readyState)"
  by (simp add: loader_defs loader_samples)

lemma failed_fetch:
  "getSupabase sampleAccepts FetchFailed initialState = (Inl NetworkError, failedState)"
  by (simp add: loader_defs loader_samples)

text \<open>
  C7, as stated, fails on the loader. Two first calls of \<open>getSupabase\<close> that overlap both
  find no client cached and both initialize: two fetches, two clients, and the second
  client replaces the first, so that a later call returns a handle other than the one the
  first call returned. And \<open>initSupabase\<close>, which the application calls directly on load,
  does not look at the cache: on a loader that is ready it constructs a second client.
\<close>

theorem overlapping_calls_initialize_twice:
  "supabaseClient initialState = None \<and>
   getSupabaseOverlapping sampleAccepts (Fetched (Response True (Some goodConfig)))
     (Fetched (Response True (Some goodConfig))) initialState =
     ((Inr sampleClient, Inr secondClient), twiceState) \<and>
   created twiceState = 2 \<and>
   fetched twiceState = [''/api/config'', ''/api/config''] \<and>
   sampleClient \<noteq> secondClient \<and>
   getSupabase sampleAccepts FetchFailed twiceState = (Inr secondClient, twiceState) \<and>
   supabaseClient readyState = Some sampleClient \<and>
   initSupabase sampleAccepts (Fetched (Response True (Some goodConfig))) readyState =
     (Inr secondClient, twiceState)"
  by (simp add: getSupabaseOverlapping_def loader_defs loader_samples)

text \<open>
  C7, amended. For calls of \<open>getSupabase\<close> that do not overlap, each finished before the
  next starts, and with no direct call of \<open>initSupabase\<close> in between: with a client cached
  the call returns it and changes nothing, so nothing is fetched; with none cached the
  call is an initialization, and it fetches the configuration; once a call has returned a
  client, that client is cached and every call of every later run returns the same one,
  leaving the state as it is; a failed call from the uninitialized state leaves the state
  uninitialized and the next call fetches again; and a run constructs one client at most.
\<close>

theorem getSupabase_initializes_once:
  "(supabaseClient st = Some c \<longrightarrow> getSupabase a fr st = (Inr c, st)) \<and>
   (supabaseClient st = None \<longrightarrow>
      getSupabase a fr st = initSupabase a fr st \<and>
      fetched (snd (getSupabase a fr st)) = fetched st @ [''/api/config'']) \<and>
   (getSupabase a fr st = (Inr c, st') \<longrightarrow>
      supabaseClient st' = Some c \<and>
      getSupabaseRun a frs st' = (replicate (length frs) (Inr c), st')) \<and>
   (supabaseClient st = None \<and> getSupabase a fr st = (Inl e, st') \<longrightarrow>
      supabaseClient st' = None \<and>
      fetched (snd (getSupabase a fr' st')) = fetched st' @ [''/api/config'']) \<and>
   created (snd (getSupabaseRun a frs st)) \<le> Suc (created st)"
proof (intro conjI impI)
  assume "supabaseClient st = Some c"
  then show "getSupabase a fr st = (Inr c, st)" by (rule getSupabase_cached)
next
  assume "supabaseClient st = None"
  then show "getSupabase a fr st = initSupabase a fr st" by (rule getSupabase_uncached)
next
  assume "supabaseClient st = None"
  then show "fetched (snd (getSupabase a fr st)) = fetched st @ [''/api/config'']"
    by (simp add: getSupabase_uncached initSupabase_fetched)
next
  assume "getSupabase a fr st = (Inr c, st')"
  then show "supabaseClient st' = Some c" by (rule getSupabase_Inr)
next
  assume "getSupabase a fr st = (Inr c, st')"
  then have "supabaseClient st' = Some c" by (rule getSupabase_Inr)
  then show "getSupabaseRun a frs st' = (replicate (length frs) (Inr c), st')"
    by (rule run_ready)
next
  assume h: "supabaseClient st = None \<and> getSupabase a fr st = (Inl e, st')"
  then have n0: "supabaseClient st = None" and g: "getSupabase a fr st = (Inl e, st')"
    by simp_all
  from g have "initSupabase a fr st = (Inl e, st')"
    by (simp add: getSupabase_uncached [OF n0])
  from initSupabase_Inl [OF this] n0 show n: "supabaseClient st' = None" by simp
  then show "fetched (snd (getSupabase a fr' st')) = fetched st' @ [''/api/config'']"
    by (simp add: getSupabase_uncached initSupabase_fetched)
next
  show "created (snd (getSupabaseRun a frs st)) \<le> Suc (created st)"
    using run_created [of a frs st] by (simp split: if_splits)
qed

text \<open>
  C7, amended, on a process: a first call whose fetch fails, a call that initializes, and calls
  after that, which return the client of the one initialization whatever a fetch would
  give.
\<close>

theorem getSupabase_initializes_once_witness:
  "supabaseClient readyState = Some sampleClient \<and>
   getSupabase sampleAccepts FetchFailed readyState = (Inr sampleClient, readyState) \<and>
   supabaseClient initialState = None \<and>
   getSupabase sampleAccepts (Fetched (Response True (Some goodConfig))) initialState =
     (Inr sampleClient, readyState) \<and>
   getSupabaseRun sampleAccepts [FetchFailed, Fetched (Response True (Some noKeyConfig))]
     readyState = ([Inr sampleClient, Inr sampleClient], readyState) \<and>
   getSupabase sampleAccepts FetchFailed initialState = (Inl NetworkError, failedState) \<and>
   supabaseClient failedState = None \<and>
   fetched (snd (getSupabase sampleAccepts (Fetched (Response True (Some goodConfig)))
     failedState)) = [''/api/config'', ''/api/config'']"
proof -
  have r: "supabaseClient readyState = Some sampleClient" by (simp add: readyState_def)
  have i: "supabaseClient initialState = None" by (simp add: initialState_def)
  note cached = getSupabase_initializes_once
    [where st = readyState and c = sampleClient and a = sampleAccepts and fr = FetchFailed]
  note later = getSupabase_initializes_once
    [where st = initialState and c = sampleClient and a = sampleAccepts
      and fr = "Fetched (Response True (Some goodConfig))" and st' = readyState
      and frs = "[FetchFailed, Fetched (Response True (Some noKeyConfig))]"]
  note retry = getSupabase_initializes_once
    [where st = initialState and a = sampleAccepts and fr = FetchFailed
      and st' = failedState and e = NetworkError
      and fr' = "Fetched (Response True (Some goodConfig))"]
  from cached r
  have 1: "getSupabase sampleAccepts FetchFailed readyState = (Inr sampleClient, readyState)"
    by blast
  from later good_fetch
  have 2: "getSupabaseRun sampleAccepts
      [FetchFailed, Fetched (Response True (Some noKeyConfig))] readyState =
     ([Inr sampleClient, Inr sampleClient], readyState)"
    by simp
  from retry i failed_fetch
  have 3: "supabaseClient failedState = None \<and>
     fetched (snd (getSupabase sampleAccepts (Fetched (Response True (Some goodConfig)))
       failedState)) = fetched failedState @ [''/api/config'']"
    by blast
  from r i 1 2 3 good_fetch failed_fetch show ?thesis by (simp add: failedState_def)
qed

text \<open>
  C8, as stated, fails on the loader in the direction from failure to its causes. The
  endpoint can answer, and answer with \<open>ok\<close>, and the initialization still fails: when the
  body is not JSON, so that \<open>response.json()\<close> throws, and when the JSON body has both
  credential fields but one of them holds the empty string.
\<close>

theorem initSupabase_fails_on_other_replies:
  "isl (fst (initSupabase sampleAccepts (Fetched (Response True None)) initialState)) \<and>
   isl (fst (initSupabase sampleAccepts (Fetched (Response True (Some emptyUrlConfig)))
     initialState)) \<and>
   emptyUrlConfig = JObj [(utf16 ''supabaseUrl'', JStr []),
                          (utf16 ''supabaseAnonKey'', JStr (utf16 ''anon-key''))]"
  by (simp add: loader_defs loader_samples)

text \<open>
  C8, amended. An initialization fails exactly when the fetch is rejected, or the response
  is not \<open>ok\<close>, or its body is not JSON, or \<open>supabaseUrl\<close> or \<open>supabaseAnonKey\<close> cannot be
  read from the body as a truthy value (the field is missing, or false, null, zero or
  empty, or the body is \<open>null\<close>), or the client constructor throws on the two values. A
  failed initialization leaves the cached client as it was. In particular, when the body is
  an object without \<open>supabaseAnonKey\<close> and no client is cached, \<open>getSupabase\<close> fails with the
  credentials error, no client is cached, and the application shows its connection error
  page.
\<close>

theorem initSupabase_fails_iff:
  "(isl (fst (initSupabase a fr st)) \<longleftrightarrow>
      fr = FetchFailed \<or>
      (\<exists>r. fr = Fetched r \<and>
         (\<not> ok r \<or> json r = None \<or>
          (\<exists>config. json r = Some config \<and>
             ((\<forall>u. getProp config (utf16 ''supabaseUrl'') = Inr (Some u) \<longrightarrow> \<not> truthy u) \<or>
              (\<forall>k. getProp config (utf16 ''supabaseAnonKey'') = Inr (Some k) \<longrightarrow> \<not> truthy k) \<or>
              (\<exists>u k. getProp config (utf16 ''supabaseUrl'') = Inr (Some u) \<and>
                     getProp config (utf16 ''supabaseAnonKey'') = Inr (Some k) \<and>
                     \<not> a u k)))))) \<and>
   (isl (fst (initSupabase a fr st)) \<longrightarrow>
      supabaseClient (snd (initSupabase a fr st)) = supabaseClient st) \<and>
   (fr = Fetched (Response True (Some (JObj kvs))) \<and>
    utf16 ''supabaseAnonKey'' \<notin> fst ` set kvs \<and> supabaseClient st = None \<longrightarrow>
      fst (getSupabase a fr st) = Inl credentialsNotFound \<and>
      supabaseClient (snd (getSupabase a fr st)) = None \<and>
      render (fst (setupSupabase a fr (initialApp, st))) =
        ConnectionError ''Failed to initialize backend services'')"
proof (intro conjI impI)
  have "isl (fst (initSupabase a fr st)) \<longleftrightarrow>
     \<not> (\<exists>config u k. fr = Fetched (Response True (Some config)) \<and>
        getProp config (utf16 ''supabaseUrl'') = Inr (Some u) \<and> truthy u \<and>
        getProp config (utf16 ''supabaseAnonKey'') = Inr (Some k) \<and> truthy k \<and> a u k)"
    using initSupabase_succeeds_iff [of a fr st] by blast
  also have "\<dots> \<longleftrightarrow> fr = FetchFailed \<or>
      (\<exists>r. fr = Fetched r \<and>
         (\<not> ok r \<or> json r = None \<or>
          (\<exists>config. json r = Some config \<and>
             ((\<forall>u. getProp config (utf16 ''supabaseUrl'') = Inr (Some u) \<longrightarrow> \<not> truthy u) \<or>
              (\<forall>k. getProp config (utf16 ''supabaseAnonKey'') = Inr (Some k) \<longrightarrow> \<not> truthy k) \<or>
              (\<exists>u k. getProp config (utf16 ''supabaseUrl'') = Inr (Some u) \<and>
                     getProp config (utf16 ''supabaseAnonKey'') = Inr (Some k) \<and>
                     \<not> a u k)))))"
  proof (cases fr)
    case FetchFailed
    then show ?thesis by simp
  next
    case (Fetched r)
    obtain b j where r: "r = Response b j" by (cases r)
    show ?thesis
    proof (cases j)
      case None
      then show ?thesis using Fetched r by simp
    next
      case (Some config)
      show ?thesis
      proof (cases b)
        case True
        then show ?thesis unfolding Fetched r Some by fastforce
      next
        case False
        then show ?thesis unfolding Fetched r Some by simp
      qed
    qed
  qed
  finally show "isl (fst (initSupabase a fr st)) \<longleftrightarrow> fr = FetchFailed \<or>
      (\<exists>r. fr = Fetched r \<and>
         (\<not> ok r \<or> json r = None \<or>
          (\<exists>config. json r = Some config \<and>
             ((\<forall>u. getProp config (utf16 ''supabaseUrl'') = Inr (Some u) \<longrightarrow> \<not> truthy u) \<or>
              (\<forall>k. getProp config (utf16 ''supabaseAnonKey'') = Inr (Some k) \<longrightarrow> \<not> truthy k) \<or>
              (\<exists>u k. getProp config (utf16 ''supabaseUrl'') = Inr (Some u) \<and>
                     getProp config (utf16 ''supabaseAnonKey'') = Inr (Some k) \<and>
                     \<not> a u k)))))" .
next
  assume f: "isl (fst (initSupabase a fr st))"
  obtain r st' where i: "initSupabase a fr st = (r, st')" by (cases "initSupabase a fr st")
  with f obtain e where "r = Inl e" by (cases r) auto
  with i initSupabase_Inl [of a fr st e st']
  show "supabaseClient (snd (initSupabase a fr st)) = supabaseClient st" by simp
next
  assume h: "fr = Fetched (Response True (Some (JObj kvs))) \<and>
    utf16 ''supabaseAnonKey'' \<notin> fst ` set kvs \<and> supabaseClient st = None"
  then have fr: "fr = Fetched (Response True (Some (JObj kvs)))"
    and k: "utf16 ''supabaseAnonKey'' \<notin> fst ` set kvs" and n: "supabaseClient st = None"
    by simp_all
  from k have "map_of (rev kvs) (utf16 ''supabaseAnonKey'') = None"
    by (simp add: map_of_eq_None_iff)
  then have g: "getProp (JObj kvs) (utf16 ''supabaseAnonKey'') = Inr None"
    by (simp add: getProp_def)
  have u: "\<exists>x. getProp (JObj kvs) (utf16 ''supabaseUrl'') = Inr x" by (simp add: getProp_def)
  have i: "fst (initSupabase a fr st) = Inl credentialsNotFound"
    using u g unfolding fr
    by (auto simp: initSupabase_def Let_def split: option.splits)
  then show "fst (getSupabase a fr st) = Inl credentialsNotFound"
    by (simp add: getSupabase_uncached [OF n])
  obtain st' where "initSupabase a fr st = (Inl credentialsNotFound, st')"
    using i by (cases "initSupabase a fr st") simp
  from initSupabase_Inl [OF this] n this
  show "supabaseClient (snd (getSupabase a fr st)) = None"
    by (simp add: getSupabase_uncached [OF n])
  show "render (fst (setupSupabase a fr (initialApp, st))) =
        ConnectionError ''Failed to initialize backend services''"
    using i by (cases "initSupabase a fr st")
      (simp add: setupSupabase_def render_def initialApp_def)
qed

text \<open>
  C8, amended, at the scenario of the specification: the body lacks \<open>supabaseAnonKey\<close>.
\<close>

theorem initSupabase_fails_iff_witness:
  "isl (fst (initSupabase sampleAccepts (Fetched (Response True (Some noKeyConfig)))
     initialState)) \<and>
   supabaseClient (snd (initSupabase sampleAccepts
     (Fetched (Response True (Some noKeyConfig))) initialState)) =
     supabaseClient initialState \<and>
   noKeyConfig = JObj [(utf16 ''supabaseUrl'', JStr (utf16 ''https://halo.supabase.co''))] \<and>
   utf16 ''supabaseAnonKey'' \<notin>
     fst ` set [(utf16 ''supabaseUrl'', JStr (utf16 ''https://halo.supabase.co''))] \<and>
   supabaseClient initialState = None \<and>
   fst (getSupabase sampleAccepts (Fetched (Response True (Some noKeyConfig))) initialState) =
     Inl credentialsNotFound \<and>
   render (fst (setupSupabase sampleAccepts (Fetched (Response True (Some noKeyConfig)))
     (initialApp, initialState))) = ConnectionError ''Failed to initialize backend services''"
proof -
  have c: "noKeyConfig = JObj [(utf16 ''supabaseUrl'', JStr (utf16 ''https://halo.supabase.co''))]"
    by (simp add: noKeyConfig_def)
  have k: "utf16 ''supabaseAnonKey'' \<notin>
      fst ` set [(utf16 ''supabaseUrl'', JStr (utf16 ''https://halo.supabase.co''))]"
    by (simp add: utf16_def)
  have n: "supabaseClient initialState = None" by (simp add: initialState_def)
  have f: "isl (fst (initSupabase sampleAccepts (Fetched (Response True (Some noKeyConfig)))
      initialState))"
    by (simp add: loader_defs loader_samples)
  note t = initSupabase_fails_iff
    [where a = sampleAccepts and fr = "Fetched (Response True (Some noKeyConfig))"
      and st = initialState
      and kvs = "[(utf16 ''supabaseUrl'', JStr (utf16 ''https://halo.supabase.co''))]"]
  from t c k n f show ?thesis by simp
qed


section \<open>The lead service: the row that is sent\<close>

lemma dropWhile_all: "(\<forall>x \<in> set (dropWhile P s). P x) \<longleftrightarrow> (\<forall>x \<in> set s. P x)"
  by (induction s) auto

text \<open>Trimming leaves nothing exactly of the strings made of white space only.\<close>

lemma trim_Nil_iff: "trim s = [] \<longleftrightarrow> list_all isWhiteSpace s"
  by (simp add: trim_def list_all_iff dropWhile_all)

text \<open>Of every string that the sample pattern accepts, one character is an \<open>@\<close>.\<close>

lemma sampleEmailRegex_not_blank: "sampleEmailRegex s \<Longrightarrow> \<not> list_all isWhiteSpace s"
proof
  assume m: "sampleEmailRegex s" and w: "list_all isWhiteSpace s"
  from m have "dropWhile (\<lambda>c. c \<noteq> 0x40) s \<noteq> []"
    by (simp add: sampleEmailRegex_def Let_def)
  then have "\<exists>x \<in> set s. x = 0x40" by (simp add: dropWhile_eq_Nil_conv)
  with w have "isWhiteSpace 0x40" by (auto simp: list_all_iff)
  then show False by (simp add: isWhiteSpace_def)
qed

text \<open>
  C6, as stated, fails on the page. A school name left empty passes validation, and the
  request that \<open>onSubmit\<close> sends carries the payload as it is: the school name in it is the
  empty string, not an absent value.
\<close>

theorem empty_schoolName_is_posted:
  "schoolName blankSchool = Some [] \<and>
   formSchema sampleEmailRegex blankSchool = [] \<and>
   requests (handleSubmit sampleEmailRegex Fulfilled (pageWith blankSchool)) =
     [\<lparr> httpMethod = ''POST'', url = ''/api/leads'', payload = blankSchool \<rparr>]"
proof -
  have f: "formSchema sampleEmailRegex blankSchool = []"
    by (simp add: sample_defs class_defs schema_defs)
  have "formValues (pageWith blankSchool) = blankSchool" by (simp add: pageWith_def)
  with f have "requests (handleSubmit sampleEmailRegex Fulfilled (pageWith blankSchool)) =
     [\<lparr> httpMethod = ''POST'', url = ''/api/leads'', payload = blankSchool \<rparr>]"
    by (simp add: submit_defs pageWith_def blankPage_def)
  with f show ?thesis by (simp add: blankSchool_def)
qed

text \<open>
  C6, amended. The request that \<open>onSubmit\<close> sends to \<open>/api/leads\<close> carries the payload
  unchanged, empty optional fields included. The normalization is that of the lead
  service: in the row that \<open>submitLead\<close> sends to the store an empty school name and an
  empty e-mail address are absent (as is an e-mail address of white space only), and for
  every payload that passes validation, the e-mail pattern accepting no string of white
  space only, every non-empty value of the six fields is passed through unchanged. That
  row is the one row sent, to the table \<open>leads\<close>, once the client is there; without a
  client nothing is sent.
\<close>

theorem empty_optionals_normalized_by_service:
  "requests (onSubmit net d pg) =
     requests pg @ [\<lparr> httpMethod = ''POST'', url = ''/api/leads'', payload = d \<rparr>] \<and>
   school_name (leadRow now d) = (if schoolName d = Some [] then None else schoolName d) \<and>
   email_col (leadRow now d) =
     (case email d of None \<Rightarrow> None
      | Some s \<Rightarrow> if list_all isWhiteSpace s then None else Some s) \<and>
   (formSchema emailRegex d = [] \<and> (\<forall>s. emailRegex s \<longrightarrow> \<not> list_all isWhiteSpace s) \<longrightarrow>
      email_col (leadRow now d) = email d) \<and>
   parent_name (leadRow now d) = parentName d \<and>
   child_grade (leadRow now d) = childGrade d \<and>
   city_col (leadRow now d) = city d \<and>
   mobile_number (leadRow now d) = mobileNumber d \<and>
   inserted (snd (submitLead a fr now reply d st)) =
     (if isl (fst (getSupabase a fr st)) then inserted st
      else inserted st @ [(''leads'', leadRow now d)])"
proof -
  have q: "requests (onSubmit net d pg) =
     requests pg @ [\<lparr> httpMethod = ''POST'', url = ''/api/leads'', payload = d \<rparr>]"
    by (cases net) (simp_all add: onSubmit_def apiRequest_def showToast_def reset_def Let_def)
  have e: "email_col (leadRow now d) =
     (case email d of None \<Rightarrow> None
      | Some s \<Rightarrow> if list_all isWhiteSpace s then None else Some s)"
    by (auto simp: leadRow_def trim_Nil_iff split: option.splits)
  have v: "email_col (leadRow now d) = email d"
    if ok: "formSchema emailRegex d = []"
      and pat: "\<forall>s. emailRegex s \<longrightarrow> \<not> list_all isWhiteSpace s"
  proof (cases "email d")
    case None
    with e show ?thesis by simp
  next
    case (Some s)
    from ok have "map_of (formSchema emailRegex d) Email = None" by simp
    with Some have "emailRegex s" by (simp add: email_issue split: if_splits)
    with pat have "\<not> list_all isWhiteSpace s" by simp
    with e Some show ?thesis by simp
  qed
  have s: "school_name (leadRow now d) = (if schoolName d = Some [] then None else schoolName d)"
    by (auto simp: leadRow_def orAbsent_def split: option.splits)
  obtain r st1 where g: "getSupabase a fr st = (r, st1)" by (cases "getSupabase a fr st")
  with getSupabase_inserted [of a fr st] have i: "inserted st1 = inserted st" by simp
  have "inserted (snd (submitLead a fr now reply d st)) =
     (if isl (fst (getSupabase a fr st)) then inserted st
      else inserted st @ [(''leads'', leadRow now d)])"
    using g i by (cases r) (simp_all add: submitLead_def Let_def split: option.splits)
  with q e v s show ?thesis by (simp add: leadRow_def)
qed

text \<open>
  C6, amended, at a valid payload whose school name is empty, with the sample pattern
  (which accepts no string of white space only, by \<open>sampleEmailRegex_not_blank\<close>): the
  payload is posted as it is, and in the row of the service the school name is absent and
  the e-mail address unchanged.
\<close>

theorem empty_optionals_normalized_by_service_witness:
  "formSchema sampleEmailRegex blankSchool = [] \<and>
   requests (onSubmit Fulfilled blankSchool (pageWith blankSchool)) =
     [\<lparr> httpMethod = ''POST'', url = ''/api/leads'', payload = blankSchool \<rparr>] \<and>
   schoolName blankSchool = Some [] \<and>
   school_name (leadRow (utf16 ''2026-01-01T00:00:00.000Z'') blankSchool) = None \<and>
   email_col (leadRow (utf16 ''2026-01-01T00:00:00.000Z'') blankSchool) =
     Some (utf16 ''anjali@example.com'')"
proof -
  have f: "formSchema sampleEmailRegex blankSchool = []"
    by (simp add: sample_defs class_defs schema_defs)
  have p: "\<forall>s. sampleEmailRegex s \<longrightarrow> \<not> list_all isWhiteSpace s"
    using sampleEmailRegex_not_blank by blast
  have b: "schoolName blankSchool = Some []"
    "email blankSchool = Some (utf16 ''anjali@example.com'')"
    by (simp_all add: blankSchool_def validLead_def)
  note t = empty_optionals_normalized_by_service
    [where net = Fulfilled and d = blankSchool and pg = "pageWith blankSchool"
      and now = "utf16 ''2026-01-01T00:00:00.000Z''" and emailRegex = sampleEmailRegex]
  from t have q: "requests (onSubmit Fulfilled blankSchool (pageWith blankSchool)) =
      requests (pageWith blankSchool) @
        [\<lparr> httpMethod = ''POST'', url = ''/api/leads'', payload = blankSchool \<rparr>]"
    by (rule conjunct1)
  from t have sc: "school_name (leadRow (utf16 ''2026-01-01T00:00:00.000Z'') blankSchool) =
      (if schoolName blankSchool = Some [] then None else schoolName blankSchool)"
    by blast
  from t f p have e: "email_col (leadRow (utf16 ''2026-01-01T00:00:00.000Z'') blankSchool) =
      email blankSchool"
    by blast
  from q have q': "requests (onSubmit Fulfilled blankSchool (pageWith blankSchool)) =
      [\<lparr> httpMethod = ''POST'', url = ''/api/leads'', payload = blankSchool \<rparr>]"
    by (simp add: pageWith_def blankPage_def)
  from sc b have sc': "school_name (leadRow (utf16 ''2026-01-01T00:00:00.000Z'') blankSchool) =
      None"
    by simp
  from f q' b sc' e show ?thesis by simp
qed

end
